theory Spec2Isabelle
  imports Complex_Main "HOL-Library.Word"
begin

unbundle bit_operations_syntax

section \<open>Data model of the ICM20602 driver (icm20602.cpp)\<close>

type_synonym u8 = "8 word"
type_synonym u16 = "16 word"
type_synonym i16 = "16 word"
type_synonym u32 = "32 word"
type_synonym u64 = "64 word"
type_synonym float32 = "32 word"

text \<open>
  The register addresses come from icm20602.h, which is not among the sources. The
  driver only ever compares them for equality, so they are modelled by their names;
  distinct names stand for distinct addresses.
\<close>

datatype icmreg =
    ICMREG_PWR_MGMT_1
  | ICMREG_USER_CTRL
  | ICMREG_SMPLRT_DIV
  | ICMREG_CONFIG
  | ICMREG_GYRO_CONFIG
  | ICMREG_ACCEL_CONFIG
  | ICMREG_INT_ENABLE
  | ICMREG_INT_PIN_CFG
  | ICMREG_INT_STATUS
  | ICMREG_WHOAMI

text \<open>
  Constants of icm20602.h, drv_accel.h and drv_gyro.h that the modelled functions use.
  Their values are not in the sources, so every function that needs one takes this
  record as a parameter.
\<close>

record icm20602_h =
  BIT_H_RESET :: u8
  ICM20602_ONE_G :: real
  ICM20602_GYRO_DEFAULT_RATE :: u32
  GYRO_SAMPLERATE_DEFAULT :: u32
  ACCEL_SAMPLERATE_DEFAULT :: u32

text \<open>Return values of the driver's entry points: \<open>OK\<close>, \<open>-EIO\<close>, \<open>-EINVAL\<close>.\<close>

datatype status = OK | EIO | EINVAL

text \<open>\<open>struct accel_calibration_s\<close>. Each \<open>float\<close> field is kept as its 32-bit
  pattern, which is what \<open>memcpy\<close> moves.\<close>

record accel_calibration_s =
  x_offset :: float32
  x_scale :: float32
  y_offset :: float32
  y_scale :: float32
  z_offset :: float32
  z_scale :: float32

text \<open>
  Modelled from the spec: \<open>struct ICMReport\<close> of icm20602.h, one bus transaction's worth
  of big-endian 16-bit fields (accel x/y/z, temperature, gyro x/y/z) after the command
  and status bytes. Each field is the pair (first byte, second byte) as transferred.
\<close>

record ICMReport =
  cmd :: u8
  status_byte :: u8
  accel_x :: "u8 \<times> u8"
  accel_y :: "u8 \<times> u8"
  accel_z :: "u8 \<times> u8"
  temp :: "u8 \<times> u8"
  gyro_x :: "u8 \<times> u8"
  gyro_y :: "u8 \<times> u8"
  gyro_z :: "u8 \<times> u8"

text \<open>The local \<open>struct Report\<close> of \<open>measure()\<close>: seven \<open>int16_t\<close> fields.\<close>

record Report =
  r_accel_x :: i16
  r_accel_y :: i16
  r_accel_z :: i16
  r_temp :: i16
  r_gyro_x :: i16
  r_gyro_y :: i16
  r_gyro_z :: i16

text \<open>
  The integer fields of \<open>accel_report\<close> and \<open>gyro_report\<close> that \<open>measure()\<close> fills in,
  with the scale metadata and the temperature. The calibrated, filtered and integrated
  triplets are computed by \<open>rotate_3f\<close>, \<open>LowPassFilter2p\<close> and \<open>Integrator\<close>, none of
  which is among the sources; they are left out of the record.
\<close>

record accel_report =
  a_timestamp :: u64
  a_error_count :: nat
  a_x_raw :: i16
  a_y_raw :: i16
  a_z_raw :: i16
  a_scaling :: real
  a_range_m_s2 :: real
  a_temperature_raw :: i16
  a_temperature :: real

record gyro_report =
  g_timestamp :: u64
  g_error_count :: nat
  g_x_raw :: i16
  g_y_raw :: i16
  g_z_raw :: i16
  g_scaling :: real
  g_range_rad_s :: real
  g_temperature_raw :: i16
  g_temperature :: real

text \<open>
  What a call does to the outside world, in order: register reads and writes on the bus,
  the burst transfer of the sample block, reports pushed into the two ring buffers,
  waiters notified, reports published.
\<close>

datatype event =
    RegRead icmreg
  | RegWrite icmreg u8
  | Transfer
  | AccelForce accel_report
  | GyroForce gyro_report
  | AccelNotify
  | GyroNotify
  | AccelPublish accel_report
  | GyroPublish gyro_report

text \<open>
  The members of \<open>class ICM20602\<close> that the modelled functions read or write. The
  performance counters are event counts. \<open>last_accel\<close> is the byte image of
  \<open>uint16_t _last_accel[3]\<close>, which the driver only accesses with \<open>memcmp\<close>,
  \<open>memcpy\<close> and \<open>memset\<close>. \<open>pub_blocked\<close> is the \<open>_pub_blocked\<close> member inherited
  from \<open>CDev\<close>. The elapsed-time counter \<open>_sample_perf\<close>, the filters, the
  integrators and the ring buffers belong to classes outside the sources; what the
  driver hands to them appears as an event.
\<close>

record icm_state =
  accel_scale :: accel_calibration_s
  accel_range_scale :: real
  accel_range_m_s2 :: real
  gyro_range_scale :: real
  gyro_range_rad_s :: real
  sample_rate :: u32
  bad_transfers :: nat
  bad_registers :: nat
  good_transfers :: nat
  duplicates :: nat
  register_wait :: u8
  reset_wait :: u64
  checked_values :: "u8 list"
  checked_next :: u8
  in_factory_test :: bool
  last_temperature :: real
  last_accel :: "u8 list"
  got_duplicate :: bool
  pub_blocked :: bool

definition ICM20602_NUM_CHECKED_REGISTERS :: nat where
  "ICM20602_NUM_CHECKED_REGISTERS = 8"

definition checked_registers :: "icmreg list" where
  "checked_registers =
     [ICMREG_PWR_MGMT_1, ICMREG_USER_CTRL, ICMREG_SMPLRT_DIV, ICMREG_CONFIG,
      ICMREG_GYRO_CONFIG, ICMREG_ACCEL_CONFIG, ICMREG_INT_ENABLE, ICMREG_INT_PIN_CFG]"

text \<open>
  The class invariant the array accesses rely on: eight shadow values, a cursor below
  eight, six latch bytes.
\<close>

definition state_ok :: "icm_state \<Rightarrow> bool" where
  "state_ok s =
     (length (checked_values s) = ICM20602_NUM_CHECKED_REGISTERS \<and>
      unat (checked_next s) < ICM20602_NUM_CHECKED_REGISTERS \<and>
      length (last_accel s) = 6)"

section \<open>Register access\<close>

text \<open>\<open>write_reg\<close>: one register write on the bus.\<close>

definition write_reg :: "icmreg \<Rightarrow> u8 \<Rightarrow> event list" where
  "write_reg reg v = [RegWrite reg v]"

text \<open>\<open>write_checked_reg\<close>: write the register, then update the shadow value of every
  entry of the checked set that names it.\<close>

definition write_checked_reg :: "icmreg \<Rightarrow> u8 \<Rightarrow> icm_state \<Rightarrow> event list \<times> icm_state" where
  "write_checked_reg reg v s =
     (write_reg reg v,
      s\<lparr>checked_values :=
          fold (\<lambda>i cv. if reg = checked_registers ! i then cv[i := v] else cv)
            [0..<ICM20602_NUM_CHECKED_REGISTERS] (checked_values s)\<rparr>)"

section \<open>Register health check\<close>

text \<open>
  \<open>check_registers\<close>. \<open>v\<close> is the byte that \<open>read_reg\<close> returns for the register
  under the cursor, \<open>now\<close> the value of \<open>hrt_absolute_time()\<close> (microseconds) in the
  mismatch branch.
\<close>

definition check_registers :: "icm20602_h \<Rightarrow> u8 \<Rightarrow> u64 \<Rightarrow> icm_state \<Rightarrow> event list \<times> icm_state" where
  "check_registers h v now s =
     (let n = unat (checked_next s);
          rd = [RegRead (checked_registers ! n)];
          (evs, s1) =
            (if v \<noteq> checked_values s ! n then
               (let s0 = s\<lparr>bad_registers := bad_registers s + 1\<rparr>;
                    (w, s') =
                      (if register_wait s0 = 0 \<or> checked_next s0 = 0 then
                         (write_reg ICMREG_PWR_MGMT_1 (BIT_H_RESET h),
                          s0\<lparr>reset_wait := now + 10000, checked_next := 0\<rparr>)
                       else
                         (write_reg (checked_registers ! n) (checked_values s0 ! n),
                          s0\<lparr>reset_wait := now + 3000\<rparr>))
                in (rd @ w, s'\<lparr>register_wait := 20\<rparr>))
             else (rd, s))
      in (evs,
          s1\<lparr>checked_next :=
               of_nat ((unat (checked_next s1) + 1) mod ICM20602_NUM_CHECKED_REGISTERS)\<rparr>))"

section \<open>Sample rate and accelerometer range\<close>

text \<open>
  \<open>_set_sample_rate\<close>. The argument is an \<open>unsigned\<close>; \<open>1000 / desired_sample_rate_hz\<close>
  is an unsigned 32-bit division whose quotient is narrowed to the \<open>uint8_t div\<close> before
  the two bounds are applied. A division by zero (possible only when the default rate of
  the header is zero) is the result \<open>None\<close>.
\<close>

definition set_sample_rate :: "icm20602_h \<Rightarrow> u32 \<Rightarrow> icm_state \<Rightarrow> (event list \<times> icm_state) option" where
  "set_sample_rate h desired_sample_rate_hz s =
     (let hz = (if desired_sample_rate_hz = 0 \<or>
                   desired_sample_rate_hz = GYRO_SAMPLERATE_DEFAULT h \<or>
                   desired_sample_rate_hz = ACCEL_SAMPLERATE_DEFAULT h
                then ICM20602_GYRO_DEFAULT_RATE h else desired_sample_rate_hz)
      in if hz = 0 then None
         else
           (let div0 = (ucast ((1000 :: u32) div hz) :: u8);
                div1 = (if div0 > 200 then 200 else div0);
                div2 = (if div1 < 1 then 1 else div1);
                (evs, s') = write_checked_reg ICMREG_SMPLRT_DIV (div2 - 1) s
            in Some (evs, s'\<lparr>sample_rate := of_nat (1000 div unat div2)\<rparr>)))"

text \<open>The divider that \<open>_set_sample_rate\<close> programs: the value written to
  \<open>ICMREG_SMPLRT_DIV\<close> is the divider minus one.\<close>

definition programmed_divider :: "event list \<Rightarrow> nat option" where
  "programmed_divider evs =
     (case evs of [RegWrite ICMREG_SMPLRT_DIV v] \<Rightarrow> Some (unat v + 1) | _ \<Rightarrow> None)"

text \<open>The divider as the specification words it: clamp(round(1000/requested_Hz), 1, 200).\<close>

definition spec_divider :: "nat \<Rightarrow> int" where
  "spec_divider hz = max 1 (min 200 (round (1000 / real hz)))"

text \<open>
  \<open>set_accel_range\<close>. The \<open>float\<close> results are modelled by the real numbers they
  denote. The function returns \<open>OK\<close> on every path.
\<close>

definition set_accel_range :: "icm20602_h \<Rightarrow> u32 \<Rightarrow> icm_state \<Rightarrow> status \<times> event list \<times> icm_state" where
  "set_accel_range h max_g_in s =
     (let (afs_sel, lsb_per_g, max_accel_g) =
            (if max_g_in > 8 then (3 :: u8, 2048 :: real, 16 :: real)
             else if max_g_in > 4 then (2, 4096, 8)
             else if max_g_in > 2 then (1, 8192, 4)
             else (0, 16384, 2));
          (evs, s') = write_checked_reg ICMREG_ACCEL_CONFIG (push_bit 3 afs_sel) s
      in (OK, evs,
          s'\<lparr>accel_range_scale := ICM20602_ONE_G h / lsb_per_g,
             accel_range_m_s2 := max_accel_g * ICM20602_ONE_G h\<rparr>))"

text \<open>The range buckets of the device, in g.\<close>

definition supported_ranges :: "nat list" where
  "supported_ranges = [2, 4, 8, 16]"

section \<open>Single-precision arithmetic\<close>

text \<open>
  The value of a binary32 pattern: sign bit, eight exponent bits, 23 fraction bits.
  Finite values are exact rationals; the sign of a zero is dropped, since no comparison
  and no sum depends on it.
\<close>

datatype fval = Finite rat | PlusInf | MinusInf | NaN

definition float_val :: "float32 \<Rightarrow> fval" where
  "float_val w =
     (let neg = bit w 31;
          e = unat (take_bit 8 (drop_bit 23 w));
          m = unat (take_bit 23 w)
      in if e = 255 then (if m \<noteq> 0 then NaN else if neg then MinusInf else PlusInf)
         else
           (let v = (if e = 0 then of_nat m / 2 ^ 149
                     else if e < 150 then of_nat (2 ^ 23 + m) / 2 ^ (150 - e)
                     else of_nat (2 ^ 23 + m) * 2 ^ (e - 150))
            in Finite (if neg then - v else v)))"

text \<open>The number of binary digits of a natural number.\<close>

fun bit_length :: "nat \<Rightarrow> nat" where
  "bit_length n = (if n = 0 then 0 else Suc (bit_length (n div 2)))"

declare bit_length.simps [simp del]

text \<open>Rounding to the nearest integer, a tie going to the even one.\<close>

definition round_even :: "rat \<Rightarrow> int" where
  "round_even x =
     (let f = \<lfloor>x\<rfloor>; d = x - of_int f
      in if d < 1 / 2 then f else if 1 / 2 < d then f + 1 else if even f then f else f + 1)"

text \<open>
  Rounding an exact result to binary32, to nearest with ties to even. \<open>a\<close> is the
  magnitude in units of the smallest subnormal, 2 to the -149; below 2 to the 24 units
  the spacing is one unit, above it the 24 leading digits are kept. A rounded magnitude
  of 2 to the 128 or more overflows to an infinity.
\<close>

definition round_binary32 :: "rat \<Rightarrow> fval" where
  "round_binary32 r =
     (let a = \<bar>r\<bar> * 2 ^ 149;
          k = (if a < 2 ^ 24 then 0 else bit_length (nat \<lfloor>a\<rfloor>) - 24);
          n = round_even (a / 2 ^ k);
          v = of_int n * 2 ^ k / 2 ^ 149
      in if 2 ^ 128 \<le> v then (if r < 0 then MinusInf else PlusInf)
         else Finite (if r < 0 then - v else v))"

text \<open>\<open>+\<close> on \<open>float\<close>: the exact sum, rounded; NaN and the infinities as IEEE 754
  has them.\<close>

fun float_add :: "fval \<Rightarrow> fval \<Rightarrow> fval" where
  "float_add NaN y = NaN"
| "float_add x NaN = NaN"
| "float_add PlusInf MinusInf = NaN"
| "float_add MinusInf PlusInf = NaN"
| "float_add PlusInf y = PlusInf"
| "float_add x PlusInf = PlusInf"
| "float_add MinusInf y = MinusInf"
| "float_add x MinusInf = MinusInf"
| "float_add (Finite a) (Finite b) = round_binary32 (a + b)"

text \<open>\<open><\<close> on \<open>float\<close>: false whenever an operand is a NaN.\<close>

fun float_less :: "fval \<Rightarrow> fval \<Rightarrow> bool" where
  "float_less NaN y = False"
| "float_less x NaN = False"
| "float_less (Finite a) (Finite b) = (a < b)"
| "float_less MinusInf MinusInf = False"
| "float_less MinusInf y = True"
| "float_less x MinusInf = False"
| "float_less PlusInf y = False"
| "float_less x PlusInf = True"

section \<open>Calibration setter\<close>

text \<open>
  The \<open>ACCELIOCSSCALE\<close> case of \<open>ICM20602::ioctl\<close>. \<open>cal\<close> is the blob the argument
  points to. \<open>s->x_scale + s->y_scale + s->z_scale\<close> is two single-precision additions,
  left to right, each rounded to binary32; \<open>sum > 2.0f && sum < 4.0f\<close> compares the
  result with the constants 2 and 4.
\<close>

definition ioctl_ACCELIOCSSCALE :: "accel_calibration_s \<Rightarrow> icm_state \<Rightarrow> status \<times> icm_state" where
  "ioctl_ACCELIOCSSCALE cal s =
     (let sum = float_add (float_add (float_val (x_scale cal)) (float_val (y_scale cal)))
                  (float_val (z_scale cal))
      in if float_less (Finite 2) sum \<and> float_less sum (Finite 4)
         then (OK, s\<lparr>accel_scale := cal\<rparr>) else (EINVAL, s))"

text \<open>The sum of the three axis scales of a blob, as the setter computes it.\<close>

definition scale_sum :: "accel_calibration_s \<Rightarrow> fval" where
  "scale_sum cal =
     float_add (float_add (float_val (x_scale cal)) (float_val (y_scale cal)))
       (float_val (z_scale cal))"

section \<open>Measurement pipeline\<close>

text \<open>
  Modelled from the spec: \<open>int16_t_from_bytes\<close> of systemlib/conversions, which is not
  among the sources; it converts a 16-bit field from big-endian to host order.
\<close>

definition int16_t_from_bytes :: "u8 \<times> u8 \<Rightarrow> i16" where
  "int16_t_from_bytes b = push_bit 8 (ucast (fst b)) OR ucast (snd b)"

text \<open>The six bytes at \<open>&icm_report.accel_x[0]\<close>, which \<open>memcmp\<close> and \<open>memcpy\<close> use.\<close>

definition accel_bytes :: "ICMReport \<Rightarrow> u8 list" where
  "accel_bytes r =
     [fst (accel_x r), snd (accel_x r), fst (accel_y r), snd (accel_y r),
      fst (accel_z r), snd (accel_z r)]"

definition convert_report :: "ICMReport \<Rightarrow> Report" where
  "convert_report r =
     \<lparr>r_accel_x = int16_t_from_bytes (accel_x r),
      r_accel_y = int16_t_from_bytes (accel_y r),
      r_accel_z = int16_t_from_bytes (accel_z r),
      r_temp = int16_t_from_bytes (temp r),
      r_gyro_x = int16_t_from_bytes (gyro_x r),
      r_gyro_y = int16_t_from_bytes (gyro_y r),
      r_gyro_z = int16_t_from_bytes (gyro_z r)\<rparr>"

definition all_zero :: "Report \<Rightarrow> bool" where
  "all_zero rp =
     (r_accel_x rp = 0 \<and> r_accel_y rp = 0 \<and> r_accel_z rp = 0 \<and> r_temp rp = 0 \<and>
      r_gyro_x rp = 0 \<and> r_gyro_y rp = 0 \<and> r_gyro_z rp = 0)"

text \<open>
  \<open>(v == -32768) ? 32767 : -v\<close> on an \<open>int16_t\<close>: the negation is computed in \<open>int\<close>
  and narrowed back to 16 bits.
\<close>

definition negate_sat :: "i16 \<Rightarrow> i16" where
  "negate_sat v = (if sint v = - 32768 then 32767 else word_of_int (- sint v))"

text \<open>The block "Swap axes and negate y" followed by "Apply the swap".\<close>

definition swap_axes :: "Report \<Rightarrow> Report" where
  "swap_axes rp =
     (let accel_xt = r_accel_y rp;
          accel_yt = negate_sat (r_accel_x rp);
          gyro_xt = r_gyro_y rp;
          gyro_yt = negate_sat (r_gyro_x rp)
      in rp\<lparr>r_accel_x := accel_xt, r_accel_y := accel_yt,
             r_gyro_x := gyro_xt, r_gyro_y := gyro_yt\<rparr>)"

text \<open>
  What one call of \<open>measure()\<close> gets from outside: the two readings of
  \<open>hrt_absolute_time()\<close> (at the recovery-wait test and for the timestamp), the result
  of the burst read (\<open>None\<close> when \<open>_interface->read\<close> does not return the size of the
  block) and the results of the two \<open>Integrator::put\<close> calls.
\<close>

record measure_env =
  now_entry :: u64
  xfer :: "ICMReport option"
  now_stamp :: u64
  accel_notify :: bool
  gyro_notify :: bool

text \<open>\<open>ICM20602::measure\<close>.\<close>

definition measure_icm :: "measure_env \<Rightarrow> icm_state \<Rightarrow> status \<times> event list \<times> icm_state" where
  "measure_icm e s =
     (if in_factory_test s then (OK, [], s)
      else if now_entry e < reset_wait s then (OK, [], s)
      else
        (case xfer e of
           None \<Rightarrow> (EIO, [Transfer], s)
         | Some icm_report \<Rightarrow>
             if \<not> got_duplicate s \<and> accel_bytes icm_report = last_accel s then
               (OK, [Transfer], s\<lparr>duplicates := duplicates s + 1, got_duplicate := True\<rparr>)
             else
               (let s1 = s\<lparr>last_accel := accel_bytes icm_report, got_duplicate := False\<rparr>;
                    report = convert_report icm_report
                in if all_zero report then
                     (EIO, [Transfer], s1\<lparr>bad_transfers := bad_transfers s1 + 1\<rparr>)
                   else
                     (let s2 = s1\<lparr>good_transfers := good_transfers s1 + 1\<rparr>
                      in if register_wait s2 \<noteq> 0 then
                           (OK, [Transfer], s2\<lparr>register_wait := register_wait s2 - 1\<rparr>)
                         else
                           (let rp = swap_axes report;
                                errs = bad_transfers s2 + bad_registers s2;
                                t = real_of_int (sint (r_temp rp)) / 326.8 + 25;
                                arb = \<lparr>a_timestamp = now_stamp e, a_error_count = errs,
                                       a_x_raw = r_accel_x rp, a_y_raw = r_accel_y rp,
                                       a_z_raw = r_accel_z rp,
                                       a_scaling = accel_range_scale s2,
                                       a_range_m_s2 = accel_range_m_s2 s2,
                                       a_temperature_raw = r_temp rp, a_temperature = t\<rparr>;
                                grb = \<lparr>g_timestamp = now_stamp e, g_error_count = errs,
                                       g_x_raw = r_gyro_x rp, g_y_raw = r_gyro_y rp,
                                       g_z_raw = r_gyro_z rp,
                                       g_scaling = gyro_range_scale s2,
                                       g_range_rad_s = gyro_range_rad_s s2,
                                       g_temperature_raw = r_temp rp, g_temperature = t\<rparr>
                            in (OK,
                                [Transfer, AccelForce arb, GyroForce grb] @
                                (if accel_notify e then [AccelNotify] else []) @
                                (if gyro_notify e then [GyroNotify] else []) @
                                (if accel_notify e \<and> \<not> pub_blocked s2 then [AccelPublish arb] else []) @
                                (if gyro_notify e \<and> \<not> pub_blocked s2 then [GyroPublish grb] else []),
                                s2\<lparr>last_temperature := t\<rparr>))))))"


subsection \<open>Reading the effects of a cycle\<close>

fun accel_forced :: "event list \<Rightarrow> accel_report list" where
  "accel_forced [] = []"
| "accel_forced (AccelForce r # evs) = r # accel_forced evs"
| "accel_forced (ev # evs) = accel_forced evs"

fun gyro_forced :: "event list \<Rightarrow> gyro_report list" where
  "gyro_forced [] = []"
| "gyro_forced (GyroForce r # evs) = r # gyro_forced evs"
| "gyro_forced (ev # evs) = gyro_forced evs"

fun accel_published :: "event list \<Rightarrow> accel_report list" where
  "accel_published [] = []"
| "accel_published (AccelPublish r # evs) = r # accel_published evs"
| "accel_published (ev # evs) = accel_published evs"

fun gyro_published :: "event list \<Rightarrow> gyro_report list" where
  "gyro_published [] = []"
| "gyro_published (GyroPublish r # evs) = r # gyro_published evs"
| "gyro_published (ev # evs) = gyro_published evs"


subsection \<open>Concrete values for evaluating the model\<close>

text \<open>A header instance, the default calibration (offsets 0.0, scales 1.0), a
  well-formed state with an empty latch, two samples that differ in accel y, and an
  all-zero block.\<close>

definition hdr0 :: icm20602_h where
  "hdr0 = \<lparr>BIT_H_RESET = 0x80, ICM20602_ONE_G = 9.80665, ICM20602_GYRO_DEFAULT_RATE = 1000,
           GYRO_SAMPLERATE_DEFAULT = 1000003, ACCEL_SAMPLERATE_DEFAULT = 1000003\<rparr>"

definition cal0 :: accel_calibration_s where
  "cal0 = \<lparr>x_offset = 0, x_scale = 0x3F800000, y_offset = 0, y_scale = 0x3F800000,
           z_offset = 0, z_scale = 0x3F800000\<rparr>"

definition st0 :: icm_state where
  "st0 = \<lparr>accel_scale = cal0, accel_range_scale = 0, accel_range_m_s2 = 0,
          gyro_range_scale = 0, gyro_range_rad_s = 0, sample_rate = 1000,
          bad_transfers = 0, bad_registers = 0, good_transfers = 0, duplicates = 0,
          register_wait = 0, reset_wait = 0,
          checked_values = [1, 0, 0, 3, 0x18, 0x10, 1, 0x10], checked_next = 0,
          in_factory_test = False, last_temperature = 0,
          last_accel = [0, 0, 0, 0, 0, 0], got_duplicate = False, pub_blocked = False\<rparr>"

definition sampleA :: ICMReport where
  "sampleA = \<lparr>cmd = 0, status_byte = 1, accel_x = (0x80, 0), accel_y = (0, 5),
              accel_z = (0x10, 0), temp = (0, 7), gyro_x = (0, 1), gyro_y = (0, 2),
              gyro_z = (0, 3)\<rparr>"

definition sampleB :: ICMReport where
  "sampleB = sampleA\<lparr>accel_y := (0, 6)\<rparr>"

definition sampleZ :: ICMReport where
  "sampleZ = \<lparr>cmd = 0, status_byte = 0, accel_x = (0, 0), accel_y = (0, 0),
              accel_z = (0, 0), temp = (0, 0), gyro_x = (0, 0), gyro_y = (0, 0),
              gyro_z = (0, 0)\<rparr>"

definition env :: "ICMReport \<Rightarrow> measure_env" where
  "env r = \<lparr>now_entry = 20000, xfer = Some r, now_stamp = 20001,
            accel_notify = True, gyro_notify = True\<rparr>"


section \<open>Facts about the helpers\<close>

lemma bit_length_eq: "2 ^ n \<le> m \<Longrightarrow> m < 2 ^ Suc n \<Longrightarrow> bit_length m = Suc n"
proof (induction n arbitrary: m)
  case 0
  then have "m = 1" by simp
  then show ?case by (simp add: bit_length.simps)
next
  case (Suc n)
  have "2 ^ n \<le> m div 2" using Suc.prems(1) by simp
  moreover have "m div 2 < 2 ^ Suc n"
    using Suc.prems(2) by (simp add: less_mult_imp_div_less mult.commute)
  ultimately have "bit_length (m div 2) = Suc n" by (rule Suc.IH)
  moreover have "m \<noteq> 0" using Suc.prems(1) by (cases "m = 0") simp_all
  ultimately show ?case by (subst bit_length.simps) simp
qed

text \<open>Rounding a value of the normal range whose magnitude has \<open>n + 25\<close> digits in
  units of the smallest subnormal: all but the leading 24 digits are rounded away.\<close>

lemma round_binary32_normal:
  assumes "2 ^ (n + 24) \<le> \<bar>r\<bar> * 2 ^ 149" and "\<bar>r\<bar> * 2 ^ 149 < 2 ^ (n + 25)"
  shows "round_binary32 r =
     (let v = of_int (round_even (\<bar>r\<bar> * 2 ^ 149 / 2 ^ Suc n)) * 2 ^ Suc n / 2 ^ 149
      in if 2 ^ 128 \<le> v then (if r < 0 then MinusInf else PlusInf)
         else Finite (if r < 0 then - v else v))"
proof -
  define a where "a = \<bar>r\<bar> * 2 ^ 149"
  have lo: "(2 :: rat) ^ (n + 24) \<le> a" and hi: "a < 2 ^ (n + 25)"
    using assms by (simp_all add: a_def)
  have "(2 :: rat) ^ 24 \<le> 2 ^ (n + 24)" by (rule power_increasing) simp_all
  with lo have big: "\<not> a < 2 ^ 24" by simp
  have a0: "0 \<le> a" by (simp add: a_def)
  have "(2 :: int) ^ (n + 24) \<le> \<lfloor>a\<rfloor>" using lo by (simp add: le_floor_iff)
  then have l: "(2 :: nat) ^ (n + 24) \<le> nat \<lfloor>a\<rfloor>"
    by (simp add: le_nat_iff)
  have "\<lfloor>a\<rfloor> < (2 :: int) ^ (n + 25)" using hi by (simp add: floor_less_iff)
  then have h: "nat \<lfloor>a\<rfloor> < (2 :: nat) ^ Suc (n + 24)"
    using a0 by (simp add: nat_less_iff add.commute)
  have "bit_length (nat \<lfloor>a\<rfloor>) = Suc (n + 24)" using l h by (rule bit_length_eq)
  then have k: "(if a < 2 ^ 24 then 0 else bit_length (nat \<lfloor>a\<rfloor>) - 24) = Suc n"
    using big by simp
  show ?thesis
    unfolding round_binary32_def a_def [symmetric] Let_def k by (rule refl)
qed

lemma float_val_1: "float_val 0x3F800000 = Finite 1"
  by (simp add: float_val_def Let_def)

lemma float_val_half: "float_val 0x3F000000 = Finite (1 / 2)"
  by (simp add: float_val_def Let_def)

lemma float_val_3: "float_val 0x40400000 = Finite 3"
  by (simp add: float_val_def Let_def)

lemma float_val_tiny: "float_val 0x33800000 = Finite (1 / 2 ^ 24)"
  by (simp add: float_val_def Let_def)

lemma round_3_halves: "round_binary32 (3 / 2) = Finite (3 / 2)"
  using round_binary32_normal [of 125 "3 / 2"] by (simp add: round_even_def Let_def)

lemma round_2: "round_binary32 2 = Finite 2"
  using round_binary32_normal [of 126 2] by (simp add: round_even_def Let_def)

lemma round_4: "round_binary32 4 = Finite 4"
  using round_binary32_normal [of 127 4] by (simp add: round_even_def Let_def)

lemma round_5: "round_binary32 5 = Finite 5"
  using round_binary32_normal [of 127 5] by (simp add: round_even_def Let_def)

text \<open>2 plus 2 to the -24 is not a binary32 value: it rounds to 2.\<close>

lemma round_2_tiny: "round_binary32 (2 + 1 / 2 ^ 24) = Finite 2"
proof -
  have "\<lfloor>(33554433 :: rat) / 4\<rfloor> = 8388608"
    by (simp add: floor_eq_iff)
  then show ?thesis
    using round_binary32_normal [of 126 "2 + 1 / 2 ^ 24"] by (simp add: round_even_def Let_def)
qed

text \<open>4 minus 2 to the -23 lies halfway between two binary32 values: the tie goes to
  the even one, 4.\<close>

lemma float_val_below_2: "float_val 0x3FFFFFFF = Finite (2 - 1 / 2 ^ 23)"
  by (simp add: float_val_def Let_def)

lemma round_tie: "round_binary32 (4 - 1 / 2 ^ 23) = Finite 4"
proof -
  have "\<lfloor>(33554431 :: rat) / 2\<rfloor> = 16777215"
    by (simp add: floor_eq_iff)
  then show ?thesis
    using round_binary32_normal [of 126 "4 - 1 / 2 ^ 23"] by (simp add: round_even_def Let_def)
qed

text \<open>One tenth rounds to the value of the pattern of \<open>0.1f\<close>.\<close>

lemma round_tenth: "round_binary32 (1 / 10) = float_val 0x3DCCCCCD"
proof -
  have "\<lfloor>(67108864 :: rat) / 5\<rfloor> = 13421772"
    by (simp add: floor_eq_iff)
  then show ?thesis
    using round_binary32_normal [of 121 "1 / 10"]
    by (simp add: round_even_def float_val_def Let_def)
qed

text \<open>The sums the concrete blobs below produce.\<close>

lemma scale_sum_5: "scale_sum (cal0\<lparr>x_scale := 0x40400000\<rparr>) = Finite 5"
  by (simp add: scale_sum_def cal0_def float_val_1 float_val_3 round_4 round_5)

lemma scale_sum_2:
  "scale_sum (cal0\<lparr>y_scale := 0x3F000000, z_scale := 0x3F000000\<rparr>) = Finite 2"
  by (simp add: scale_sum_def cal0_def float_val_1 float_val_half round_3_halves round_2)

lemma scale_sum_rounded: "scale_sum (cal0\<lparr>z_scale := 0x33800000\<rparr>) = Finite 2"
  using round_2_tiny
  by (simp add: scale_sum_def cal0_def float_val_1 float_val_tiny round_2)

lemma scale_sum_tie: "scale_sum (cal0\<lparr>z_scale := 0x3FFFFFFF\<rparr>) = Finite 4"
  using round_tie
  by (simp add: scale_sum_def cal0_def float_val_1 float_val_below_2 round_2)

lemma sint_negate_sat:
  "sint (negate_sat v) = (if sint v = - 32768 then 32767 else - sint v)"
proof (cases "sint v = - 32768")
  case True
  then show ?thesis by (simp add: negate_sat_def)
next
  case False
  have lo: "- 32768 \<le> sint v" using sint_ge [of v] by simp
  have hi: "sint v < 32768" using sint_lt [of v] by simp
  have "signed_take_bit 15 (- sint v) = - sint v"
    by (rule signed_take_bit_int_eq_self) (use False lo hi in simp_all)
  moreover have "sint (word_of_int (- sint v) :: i16) = signed_take_bit 15 (- sint v)"
    by (simp only: signed_of_int) simp
  ultimately have "sint (word_of_int (- sint v) :: i16) = - sint v"
    by (simp only:)
  with False show ?thesis by (simp add: negate_sat_def)
qed

text \<open>A cycle that passes every check: the reports it builds and the state it leaves.\<close>

lemma measure_icm_processed:
  assumes "\<not> in_factory_test s" and "\<not> now_entry e < reset_wait s"
    and "xfer e = Some icm"
    and "got_duplicate s \<or> accel_bytes icm \<noteq> last_accel s"
    and "\<not> all_zero (convert_report icm)" and "register_wait s = 0"
  shows "measure_icm e s =
    (let rp = swap_axes (convert_report icm);
         errs = bad_transfers s + bad_registers s;
         t = real_of_int (sint (r_temp rp)) / 326.8 + 25;
         arb = \<lparr>a_timestamp = now_stamp e, a_error_count = errs,
                a_x_raw = r_accel_x rp, a_y_raw = r_accel_y rp, a_z_raw = r_accel_z rp,
                a_scaling = accel_range_scale s, a_range_m_s2 = accel_range_m_s2 s,
                a_temperature_raw = r_temp rp, a_temperature = t\<rparr>;
         grb = \<lparr>g_timestamp = now_stamp e, g_error_count = errs,
                g_x_raw = r_gyro_x rp, g_y_raw = r_gyro_y rp, g_z_raw = r_gyro_z rp,
                g_scaling = gyro_range_scale s, g_range_rad_s = gyro_range_rad_s s,
                g_temperature_raw = r_temp rp, g_temperature = t\<rparr>
     in (OK,
         [Transfer, AccelForce arb, GyroForce grb] @
         (if accel_notify e then [AccelNotify] else []) @
         (if gyro_notify e then [GyroNotify] else []) @
         (if accel_notify e \<and> \<not> pub_blocked s then [AccelPublish arb] else []) @
         (if gyro_notify e \<and> \<not> pub_blocked s then [GyroPublish grb] else []),
         s\<lparr>last_accel := accel_bytes icm, got_duplicate := False,
           good_transfers := good_transfers s + 1, last_temperature := t\<rparr>))"
  using assms by (auto simp: measure_icm_def Let_def)

lemma unat_div0:
  "unat (ucast ((1000 :: u32) div hz) :: u8) = (1000 div unat hz) mod 256"
  by (simp add: unsigned_ucast_eq unat_div take_bit_eq_mod)

lemma unat_neq_3: "hz \<noteq> (3 :: u32) \<Longrightarrow> unat hz \<noteq> 3"
  by (simp add: word_unat_eq_iff)

lemma clamp_div:
  fixes div0 :: u8
  assumes "unat div0 = q mod 256" and "q \<le> 1000" and "q < 256 \<or> q = 500 \<or> q = 1000"
  shows "unat (let div1 = (if div0 > 200 then 200 else div0) in if div1 < 1 then 1 else div1)
         = max 1 (min 200 q)"
  using assms by (auto simp: word_less_nat_alt Let_def)

lemma quotient_cases:
  assumes "0 < n" and "n \<noteq> (3 :: nat)"
  shows "1000 div n < 256 \<or> 1000 div n = 500 \<or> 1000 div n = 1000"
proof -
  consider "n = 1" | "n = 2" | "4 \<le> n" using assms by linarith
  then show ?thesis
  proof cases
    case 3
    then have "1000 div n \<le> 1000 div 4" by (intro div_le_mono2) simp_all
    then show ?thesis by simp
  qed simp_all
qed

lemma fold_smplrt_div:
  "fold (\<lambda>i cv. if ICMREG_SMPLRT_DIV = checked_registers ! i then cv[i := v] else cv)
     [0..<ICM20602_NUM_CHECKED_REGISTERS] cvs = cvs[2 := v]"
  by (simp add: ICM20602_NUM_CHECKED_REGISTERS_def checked_registers_def upt_rec [of _ 8]
      numeral_2_eq_2)

lemma measure_icm_duplicate:
  assumes "\<not> in_factory_test s" and "\<not> now_entry e < reset_wait s"
    and "xfer e = Some icm"
    and "\<not> got_duplicate s" and "accel_bytes icm = last_accel s"
  shows "measure_icm e s =
     (OK, [Transfer], s\<lparr>duplicates := duplicates s + 1, got_duplicate := True\<rparr>)"
  using assms by (simp add: measure_icm_def)

lemma measure_icm_latch:
  assumes "\<not> in_factory_test s" and "\<not> now_entry e < reset_wait s"
    and "xfer e = Some icm"
    and "got_duplicate s \<or> accel_bytes icm \<noteq> last_accel s"
  shows "last_accel (snd (snd (measure_icm e s))) = accel_bytes icm \<and>
         \<not> got_duplicate (snd (snd (measure_icm e s))) \<and>
         duplicates (snd (snd (measure_icm e s))) = duplicates s"
  using assms by (auto simp: measure_icm_def Let_def)

lemma measure_icm_frame:
  "in_factory_test (snd (snd (measure_icm e s))) = in_factory_test s \<and>
   reset_wait (snd (snd (measure_icm e s))) = reset_wait s \<and>
   pub_blocked (snd (snd (measure_icm e s))) = pub_blocked s"
  by (simp add: measure_icm_def Let_def split: option.splits)

lemma measure_icm_wait_zero:
  "register_wait s = 0 \<Longrightarrow> register_wait (snd (snd (measure_icm e s))) = 0"
  by (simp add: measure_icm_def Let_def split: option.splits)

lemma measure_icm_processed_effects:
  assumes "\<not> in_factory_test s" and "\<not> now_entry e < reset_wait s"
    and "xfer e = Some icm"
    and "got_duplicate s \<or> accel_bytes icm \<noteq> last_accel s"
    and "\<not> all_zero (convert_report icm)" and "register_wait s = 0"
  shows "fst (measure_icm e s) = OK \<and>
         length (accel_forced (fst (snd (measure_icm e s)))) = 1 \<and>
         length (gyro_forced (fst (snd (measure_icm e s)))) = 1 \<and>
         accel_published (fst (snd (measure_icm e s))) =
           (if accel_notify e \<and> \<not> pub_blocked s
            then accel_forced (fst (snd (measure_icm e s))) else []) \<and>
         gyro_published (fst (snd (measure_icm e s))) =
           (if gyro_notify e \<and> \<not> pub_blocked s
            then gyro_forced (fst (snd (measure_icm e s))) else [])"
  unfolding measure_icm_processed [OF assms] by (simp add: Let_def)












section \<open>Register health check: recovery tiering\<close>

text \<open>
  C1 (as amended). On a shadow mismatch the health check counts a bad register and sets
  the sticky wait counter to 20. If the cursor is at position 0 or the wait counter is
  zero it writes the reset command to the power-management register and sets the
  recovery-wait deadline to now + 10000 microseconds; the cursor is set to 0 and then
  advanced by the increment every invocation ends with, so it is 1 when the check
  returns. Otherwise it writes the shadow value back to the mismatched register only,
  sets the deadline to now + 3000 microseconds and advances the cursor modulo 8.
\<close>

theorem check_registers_mismatch:
  assumes "state_ok s" and "v \<noteq> checked_values s ! unat (checked_next s)"
  shows "check_registers h v now s =
     (if checked_next s = 0 \<or> register_wait s = 0 then
        ([RegRead (checked_registers ! unat (checked_next s)),
          RegWrite ICMREG_PWR_MGMT_1 (BIT_H_RESET h)],
         s\<lparr>bad_registers := bad_registers s + 1, reset_wait := now + 10000,
           register_wait := 20, checked_next := 1\<rparr>)
      else
        ([RegRead (checked_registers ! unat (checked_next s)),
          RegWrite (checked_registers ! unat (checked_next s))
            (checked_values s ! unat (checked_next s))],
         s\<lparr>bad_registers := bad_registers s + 1, reset_wait := now + 3000,
           register_wait := 20,
           checked_next := of_nat ((unat (checked_next s) + 1) mod 8)\<rparr>))"
  using assms
  by (auto simp: check_registers_def write_reg_def ICM20602_NUM_CHECKED_REGISTERS_def Let_def)

text \<open>Both tiers at concrete states: cursor 0 (full reset), and cursor 3 with the wait
  counter at 5 (single-register rewrite of \<open>ICMREG_CONFIG\<close>).\<close>

theorem check_registers_mismatch_witness:
  "state_ok st0 \<and> (0 :: u8) \<noteq> checked_values st0 ! unat (checked_next st0) \<and>
   check_registers hdr0 0 5000 st0 =
     ([RegRead ICMREG_PWR_MGMT_1, RegWrite ICMREG_PWR_MGMT_1 0x80],
      st0\<lparr>bad_registers := 1, reset_wait := 15000, register_wait := 20,
          checked_next := 1\<rparr>) \<and>
   state_ok (st0\<lparr>checked_next := 3, register_wait := 5\<rparr>) \<and>
   (0 :: u8) \<noteq> checked_values (st0\<lparr>checked_next := 3, register_wait := 5\<rparr>) !
      unat (checked_next (st0\<lparr>checked_next := 3, register_wait := 5\<rparr>)) \<and>
   check_registers hdr0 0 5000 (st0\<lparr>checked_next := 3, register_wait := 5\<rparr>) =
     ([RegRead ICMREG_CONFIG, RegWrite ICMREG_CONFIG 3],
      st0\<lparr>bad_registers := 1, reset_wait := 8000, register_wait := 20,
          checked_next := 4\<rparr>)"
  using check_registers_mismatch [of st0 0 hdr0 5000]
    check_registers_mismatch [of "st0\<lparr>checked_next := 3, register_wait := 5\<rparr>" 0 hdr0 5000]
  by (simp add: state_ok_def st0_def hdr0_def checked_registers_def
      ICM20602_NUM_CHECKED_REGISTERS_def)

text \<open>The claim as stated fails: after a mismatch with the cursor at 0 the cursor is 1,
  not 0, when the check returns.\<close>

theorem check_registers_cursor_counterexample:
  "(0 :: u8) \<noteq> checked_values st0 ! unat (checked_next st0) \<and> checked_next st0 = 0 \<and>
   checked_next (snd (check_registers hdr0 0 5000 st0)) \<noteq> 0"
  by (simp add: check_registers_def st0_def write_reg_def ICM20602_NUM_CHECKED_REGISTERS_def
      Let_def)

section \<open>Sample-rate divider\<close>

text \<open>
  C4 (as amended). For a requested rate other than 0, the two default markers and 3 Hz,
  the programmed divider is clamp(floor(1000 / requested_Hz), 1, 200): the quotient is
  truncated, not rounded. The register receives the divider minus one and the effective
  sample rate is 1000 div divider.
\<close>

theorem set_sample_rate_divider:
  assumes "hz \<noteq> 0" and "hz \<noteq> GYRO_SAMPLERATE_DEFAULT h"
    and "hz \<noteq> ACCEL_SAMPLERATE_DEFAULT h" and "hz \<noteq> 3"
  shows "set_sample_rate h hz s =
     (let d = max 1 (min 200 (1000 div unat hz))
      in Some ([RegWrite ICMREG_SMPLRT_DIV (of_nat (d - 1))],
               s\<lparr>checked_values := (checked_values s)[2 := of_nat (d - 1)],
                 sample_rate := of_nat (1000 div d)\<rparr>))"
proof -
  define q where "q = 1000 div unat hz"
  define d where "d = max 1 (min 200 q)"
  define div0 where "div0 = (ucast ((1000 :: u32) div hz) :: u8)"
  define div2 where
    "div2 = (let div1 = (if div0 > 200 then 200 else div0) in if div1 < 1 then 1 else div1)"
  have hz_pos: "0 < unat hz" using assms(1) by (simp add: unat_gt_0)
  have q_le: "q \<le> 1000" by (simp add: q_def)
  have qc: "q < 256 \<or> q = 500 \<or> q = 1000"
    unfolding q_def using hz_pos unat_neq_3 [OF assms(4)] by (rule quotient_cases)
  have u0: "unat div0 = q mod 256" by (simp add: div0_def q_def unat_div0)
  have u2: "unat div2 = d"
    unfolding div2_def d_def using u0 q_le qc by (rule clamp_div)
  have d1: "1 \<le> d" by (simp add: d_def)
  have d200: "d \<le> 200" by (simp add: d_def)
  have "unat (div2 - 1) = d - 1"
    using u2 d1 by (simp add: unat_sub word_le_nat_alt)
  then have w1: "div2 - 1 = of_nat (d - 1)"
    using d200 by (simp add: word_unat_eq_iff unat_of_nat)
  have "set_sample_rate h hz s =
      Some ([RegWrite ICMREG_SMPLRT_DIV (div2 - 1)],
            s\<lparr>checked_values := (checked_values s)[2 := div2 - 1],
              sample_rate := of_nat (1000 div unat div2)\<rparr>)"
    unfolding div2_def div0_def using assms(1-3)
    by (simp add: set_sample_rate_def write_checked_reg_def write_reg_def fold_smplrt_div
        Let_def)
  then show ?thesis
    by (simp only: w1 u2 Let_def d_def q_def)
qed

text \<open>The two examples of the specification: 500 Hz gives divider 2 and 500 Hz,
  1 Hz gives divider 200 and 5 Hz.\<close>

theorem set_sample_rate_divider_witness:
  "programmed_divider (fst (the (set_sample_rate hdr0 500 st0))) = Some 2 \<and>
   sample_rate (snd (the (set_sample_rate hdr0 500 st0))) = 500 \<and>
   programmed_divider (fst (the (set_sample_rate hdr0 1 st0))) = Some 200 \<and>
   sample_rate (snd (the (set_sample_rate hdr0 1 st0))) = 5"
  using set_sample_rate_divider [of 500 hdr0 st0] set_sample_rate_divider [of 1 hdr0 st0]
  by (simp add: hdr0_def programmed_divider_def Let_def max_def min_def)

text \<open>The claim as stated fails: for 600 Hz the rounded quotient is 2, the programmed
  divider is 1.\<close>

theorem set_sample_rate_round_counterexample:
  "programmed_divider (fst (the (set_sample_rate hdr0 600 st0))) = Some 1 \<and>
   spec_divider 600 = 2"
  by (simp add: set_sample_rate_def hdr0_def write_checked_reg_def write_reg_def
      programmed_divider_def spec_divider_def Let_def round_def)

section \<open>Axis fix-up\<close>

text \<open>
  C9. For every sample that reaches the axis fix-up of \<open>measure()\<close>, in the accel and
  in the gyro report alike: the new x is the old y, and the new y is the negation of the
  old x, except that an old x of -32768 gives +32767 instead of wrapping around.
\<close>

theorem axis_fixup_saturates:
  assumes "\<not> in_factory_test s" and "\<not> now_entry e < reset_wait s"
    and "xfer e = Some icm"
    and "got_duplicate s \<or> accel_bytes icm \<noteq> last_accel s"
    and "\<not> all_zero (convert_report icm)" and "register_wait s = 0"
  shows "map a_x_raw (accel_forced (fst (snd (measure_icm e s)))) =
           [int16_t_from_bytes (accel_y icm)] \<and>
         map (sint \<circ> a_y_raw) (accel_forced (fst (snd (measure_icm e s)))) =
           [if sint (int16_t_from_bytes (accel_x icm)) = - 32768 then 32767
            else - sint (int16_t_from_bytes (accel_x icm))] \<and>
         map g_x_raw (gyro_forced (fst (snd (measure_icm e s)))) =
           [int16_t_from_bytes (gyro_y icm)] \<and>
         map (sint \<circ> g_y_raw) (gyro_forced (fst (snd (measure_icm e s)))) =
           [if sint (int16_t_from_bytes (gyro_x icm)) = - 32768 then 32767
            else - sint (int16_t_from_bytes (gyro_x icm))]"
  unfolding measure_icm_processed [OF assms]
  by (simp add: Let_def swap_axes_def convert_report_def sint_negate_sat)

text \<open>Raw accel x = -32768 (bytes 0x80, 0x00) gives the transformed y = +32767.\<close>

theorem axis_fixup_saturates_witness:
  "\<not> in_factory_test st0 \<and> \<not> now_entry (env sampleA) < reset_wait st0 \<and>
   xfer (env sampleA) = Some sampleA \<and> accel_bytes sampleA \<noteq> last_accel st0 \<and>
   \<not> all_zero (convert_report sampleA) \<and> register_wait st0 = 0 \<and>
   sint (int16_t_from_bytes (accel_x sampleA)) = - 32768 \<and>
   map (sint \<circ> a_y_raw) (accel_forced (fst (snd (measure_icm (env sampleA) st0)))) = [32767] \<and>
   map a_x_raw (accel_forced (fst (snd (measure_icm (env sampleA) st0)))) = [5]"
  using axis_fixup_saturates [of st0 "env sampleA" sampleA]
  by (simp add: st0_def env_def sampleA_def accel_bytes_def all_zero_def convert_report_def
      int16_t_from_bytes_def)

section \<open>Recovery wait\<close>

text \<open>
  C5 (as amended). A call of \<open>measure()\<close> made before the recovery-wait deadline
  returns \<open>OK\<close> at once: it performs no bus transfer, publishes nothing and leaves the
  driver state as it was.
\<close>

theorem measure_waits_without_transfer:
  assumes "now_entry e < reset_wait s"
  shows "measure_icm e s = (OK, [], s)"
  using assms by (simp add: measure_icm_def)

theorem measure_waits_without_transfer_witness:
  "now_entry (env sampleA) < reset_wait (st0\<lparr>reset_wait := 30000\<rparr>) \<and>
   measure_icm (env sampleA) (st0\<lparr>reset_wait := 30000\<rparr>) = (OK, [], st0\<lparr>reset_wait := 30000\<rparr>)"
  using measure_waits_without_transfer [of "env sampleA" "st0\<lparr>reset_wait := 30000\<rparr>"]
  by (simp add: env_def)

text \<open>The claim as stated fails: before the deadline the cycle makes no bus transfer.\<close>

theorem measure_waits_counterexample:
  "now_entry (env sampleA) < reset_wait (st0\<lparr>reset_wait := 30000\<rparr>) \<and>
   Transfer \<notin> set (fst (snd (measure_icm (env sampleA) (st0\<lparr>reset_wait := 30000\<rparr>))))"
  by (simp add: measure_icm_def env_def st0_def)

section \<open>Accelerometer range\<close>

text \<open>Up to 16 g the selected range is the smallest supported one that covers the
  request, with 32768 / range LSB per g.\<close>

lemma set_accel_range_ladder:
  assumes "max_g_in \<le> 16"
  shows "fst (set_accel_range h max_g_in s) = OK \<and>
     accel_range_m_s2 (snd (snd (set_accel_range h max_g_in s))) =
       real (hd (filter (\<lambda>b. unat max_g_in \<le> b) supported_ranges)) * ICM20602_ONE_G h \<and>
     accel_range_scale (snd (snd (set_accel_range h max_g_in s))) =
       ICM20602_ONE_G h /
         (32768 / real (hd (filter (\<lambda>b. unat max_g_in \<le> b) supported_ranges)))"
  using assms
  by (auto simp: set_accel_range_def write_checked_reg_def supported_ranges_def Let_def
      word_le_nat_alt word_less_nat_alt)

text \<open>
  C6. Requesting 17 g, which no range of the device supports: \<open>set_accel_range\<close>
  programs the 16 g range (AFS_SEL = 3, 2048 LSB per g) and returns \<open>OK\<close>, where its
  declaration promises \<open>-ERANGE\<close> for a value that cannot be supported.
\<close>

theorem set_accel_range_above_16:
  "set_accel_range hdr0 17 st0 =
     (OK, [RegWrite ICMREG_ACCEL_CONFIG 0x18],
      st0\<lparr>checked_values := (checked_values st0)[5 := 0x18],
          accel_range_scale := ICM20602_ONE_G hdr0 / 2048,
          accel_range_m_s2 := 16 * ICM20602_ONE_G hdr0\<rparr>)"
  by (simp add: set_accel_range_def write_checked_reg_def write_reg_def st0_def
      ICM20602_NUM_CHECKED_REGISTERS_def checked_registers_def upt_rec [of _ 8])

section \<open>Calibration setter\<close>

text \<open>
  C7 (as amended). The accel calibration setter accepts a blob if and only if the sum
  of its three axis scales, computed in single precision as (x + y) + z, lies strictly
  between 2.0 and 4.0; it then stores the blob as it is. Otherwise it returns
  \<open>-EINVAL\<close> and leaves the driver state, the prior calibration included, unchanged.
\<close>

theorem accel_scale_setter:
  "(fst (ioctl_ACCELIOCSSCALE cal s) = OK) =
     (float_less (Finite 2) (scale_sum cal) \<and> float_less (scale_sum cal) (Finite 4)) \<and>
   (fst (ioctl_ACCELIOCSSCALE cal s) = EINVAL) =
     (\<not> (float_less (Finite 2) (scale_sum cal) \<and> float_less (scale_sum cal) (Finite 4))) \<and>
   snd (ioctl_ACCELIOCSSCALE cal s) =
     (if fst (ioctl_ACCELIOCSSCALE cal s) = OK then s\<lparr>accel_scale := cal\<rparr> else s)"
  by (simp add: ioctl_ACCELIOCSSCALE_def scale_sum_def Let_def)

text \<open>Scales 3.0, 1.0 and 1.0 sum to 5.0: rejected, and nothing changes.\<close>

theorem accel_scale_setter_witness:
  "scale_sum (cal0\<lparr>x_scale := 0x40400000\<rparr>) = Finite 5 \<and>
   ioctl_ACCELIOCSSCALE (cal0\<lparr>x_scale := 0x40400000\<rparr>) st0 = (EINVAL, st0)"
  using accel_scale_setter [of "cal0\<lparr>x_scale := 0x40400000\<rparr>" st0] scale_sum_5
  by (simp add: prod_eq_iff)

text \<open>The claim as stated fails at the boundary: scales 1.0, 0.5 and 0.5 sum to exactly
  2.0, which lies within [2.0, 4.0], and the blob is rejected.\<close>

theorem accel_scale_boundary_counterexample:
  "scale_sum (cal0\<lparr>y_scale := 0x3F000000, z_scale := 0x3F000000\<rparr>) = Finite 2 \<and>
   ioctl_ACCELIOCSSCALE (cal0\<lparr>y_scale := 0x3F000000, z_scale := 0x3F000000\<rparr>) st0 =
     (EINVAL, st0)"
  using scale_sum_2
  by (simp add: ioctl_ACCELIOCSSCALE_def scale_sum_def Let_def)

text \<open>The sum is the rounded one: scales 1.0, 1.0 and 2 to the -24 add up to more than 2,
  the single-precision sum is 2.0, and the blob is rejected.\<close>

lemma accel_scale_rounded_sum_rejected:
  "ioctl_ACCELIOCSSCALE (cal0\<lparr>z_scale := 0x33800000\<rparr>) st0 = (EINVAL, st0)"
  using scale_sum_rounded
  by (simp add: ioctl_ACCELIOCSSCALE_def scale_sum_def Let_def)

text \<open>Likewise at the upper bound: scales 1.0, 1.0 and 2 minus 2 to the -23 add up to
  less than 4, the single-precision sum is 4.0, and the blob is rejected.\<close>

lemma accel_scale_tie_sum_rejected:
  "ioctl_ACCELIOCSSCALE (cal0\<lparr>z_scale := 0x3FFFFFFF\<rparr>) st0 = (EINVAL, st0)"
  using scale_sum_tie
  by (simp add: ioctl_ACCELIOCSSCALE_def scale_sum_def Let_def)

section \<open>Zero-data check\<close>

text \<open>
  C8 (as amended). A cycle that reaches the zero-data check, its sample fetched and not
  dropped by the duplicate check that runs first, and whose seven converted fields are
  all zero increments the bad-transfer counter and returns \<open>-EIO\<close>. Its only effect on
  the bus is the burst transfer: no report is pushed or published and no register is
  written, so no reset is issued; the recovery-wait deadline and the sticky wait counter
  stay as they were. An all-zero block that arrives while the latch holds the same
  bytes and the previous cycle was not flagged never reaches the check: it is dropped
  as a duplicate, with \<open>OK\<close>.
\<close>

theorem zero_data_is_bad_transfer:
  assumes "\<not> in_factory_test s" and "\<not> now_entry e < reset_wait s"
    and "xfer e = Some icm"
    and "all_zero (convert_report icm)"
  shows "measure_icm e s =
     (if \<not> got_duplicate s \<and> accel_bytes icm = last_accel s then
        (OK, [Transfer], s\<lparr>duplicates := duplicates s + 1, got_duplicate := True\<rparr>)
      else
        (EIO, [Transfer],
         s\<lparr>last_accel := accel_bytes icm, got_duplicate := False,
           bad_transfers := bad_transfers s + 1\<rparr>))"
  using assms by (auto simp: measure_icm_def Let_def)

text \<open>An all-zero block after a flagged cycle is a bad transfer.\<close>

theorem zero_data_is_bad_transfer_witness:
  "\<not> in_factory_test (st0\<lparr>got_duplicate := True\<rparr>) \<and>
   \<not> now_entry (env sampleZ) < reset_wait (st0\<lparr>got_duplicate := True\<rparr>) \<and>
   xfer (env sampleZ) = Some sampleZ \<and> got_duplicate (st0\<lparr>got_duplicate := True\<rparr>) \<and>
   all_zero (convert_report sampleZ) \<and>
   measure_icm (env sampleZ) (st0\<lparr>got_duplicate := True\<rparr>) =
     (EIO, [Transfer], st0\<lparr>bad_transfers := 1\<rparr>)"
  using zero_data_is_bad_transfer [of "st0\<lparr>got_duplicate := True\<rparr>" "env sampleZ" sampleZ]
  by (simp add: st0_def env_def sampleZ_def accel_bytes_def all_zero_def convert_report_def
      int16_t_from_bytes_def)

text \<open>The claim as stated fails: with an all-zero latch and the flag clear, as the
  constructor and \<open>stop()\<close> leave them, an all-zero block is counted as a duplicate and
  the cycle returns \<open>OK\<close>; the bad-transfer counter does not move.\<close>

theorem zero_data_duplicate_counterexample:
  "all_zero (convert_report sampleZ) \<and>
   measure_icm (env sampleZ) st0 =
     (OK, [Transfer], st0\<lparr>duplicates := 1, got_duplicate := True\<rparr>) \<and>
   bad_transfers (snd (snd (measure_icm (env sampleZ) st0))) = bad_transfers st0"
  by (simp add: measure_icm_def st0_def env_def sampleZ_def accel_bytes_def all_zero_def
      convert_report_def int16_t_from_bytes_def)

section \<open>Duplicate suppression\<close>

text \<open>
  C3. A cycle that fetches a sample whose six accel bytes equal the duplicate latch,
  while the previous cycle was not flagged duplicate, counts a duplicate, sets the flag
  and returns \<open>OK\<close> with the burst transfer as its only effect. Any other cycle that
  fetches a sample stores it in the latch and clears the flag. In both cases a following
  cycle with a different accel triplet (and non-zero data) is processed: it pushes one
  accel and one gyro report and publishes each when its integrator signals a closed
  window and publication is not blocked.
\<close>

theorem duplicate_check:
  assumes "\<not> in_factory_test s" and "register_wait s = 0"
    and "\<not> now_entry e1 < reset_wait s" and "xfer e1 = Some r1"
    and "\<not> now_entry e2 < reset_wait s" and "xfer e2 = Some r2"
    and "accel_bytes r2 \<noteq> accel_bytes r1" and "\<not> all_zero (convert_report r2)"
  shows "(if accel_bytes r1 = last_accel s \<and> \<not> got_duplicate s
          then measure_icm e1 s =
                 (OK, [Transfer], s\<lparr>duplicates := duplicates s + 1, got_duplicate := True\<rparr>)
          else last_accel (snd (snd (measure_icm e1 s))) = accel_bytes r1 \<and>
               \<not> got_duplicate (snd (snd (measure_icm e1 s)))) \<and>
         (let s1 = snd (snd (measure_icm e1 s)); evs2 = fst (snd (measure_icm e2 s1))
          in fst (measure_icm e2 s1) = OK \<and>
             length (accel_forced evs2) = 1 \<and> length (gyro_forced evs2) = 1 \<and>
             accel_published evs2 =
               (if accel_notify e2 \<and> \<not> pub_blocked s then accel_forced evs2 else []) \<and>
             gyro_published evs2 =
               (if gyro_notify e2 \<and> \<not> pub_blocked s then gyro_forced evs2 else []) \<and>
             last_accel (snd (snd (measure_icm e2 s1))) = accel_bytes r2 \<and>
             \<not> got_duplicate (snd (snd (measure_icm e2 s1))))"
proof -
  define s1 where "s1 = snd (snd (measure_icm e1 s))"
  have first: "if accel_bytes r1 = last_accel s \<and> \<not> got_duplicate s
          then measure_icm e1 s =
                 (OK, [Transfer], s\<lparr>duplicates := duplicates s + 1, got_duplicate := True\<rparr>)
          else last_accel s1 = accel_bytes r1 \<and> \<not> got_duplicate s1"
    using measure_icm_duplicate [OF assms(1,3,4)] measure_icm_latch [OF assms(1,3,4)]
    by (auto simp: s1_def)
  have fresh: "got_duplicate s1 \<or> accel_bytes r2 \<noteq> last_accel s1"
    using first assms(7) by (auto simp: s1_def split: if_splits)
  have frame: "\<not> in_factory_test s1" "\<not> now_entry e2 < reset_wait s1" "register_wait s1 = 0"
    "pub_blocked s1 = pub_blocked s"
    using assms(1,2,5) measure_icm_frame [of e1 s] measure_icm_wait_zero [of s e1]
    by (simp_all add: s1_def)
  have second: "fst (measure_icm e2 s1) = OK \<and>
         length (accel_forced (fst (snd (measure_icm e2 s1)))) = 1 \<and>
         length (gyro_forced (fst (snd (measure_icm e2 s1)))) = 1 \<and>
         accel_published (fst (snd (measure_icm e2 s1))) =
           (if accel_notify e2 \<and> \<not> pub_blocked s
            then accel_forced (fst (snd (measure_icm e2 s1))) else []) \<and>
         gyro_published (fst (snd (measure_icm e2 s1))) =
           (if gyro_notify e2 \<and> \<not> pub_blocked s
            then gyro_forced (fst (snd (measure_icm e2 s1))) else [])"
    using measure_icm_processed_effects [OF frame(1,2) assms(6) fresh assms(8) frame(3)]
    by (simp only: frame(4))
  have latch2: "last_accel (snd (snd (measure_icm e2 s1))) = accel_bytes r2 \<and>
         \<not> got_duplicate (snd (snd (measure_icm e2 s1)))"
    using measure_icm_latch [OF frame(1,2) assms(6) fresh] by simp
  show ?thesis
    using first second latch2 unfolding s1_def [symmetric] Let_def by (simp only: simp_thms) 
qed

text \<open>A duplicate of the latched sample A is dropped; the following sample B is
  published.\<close>

theorem duplicate_check_witness:
  "\<not> in_factory_test (st0\<lparr>last_accel := accel_bytes sampleA\<rparr>) \<and>
   register_wait (st0\<lparr>last_accel := accel_bytes sampleA\<rparr>) = 0 \<and>
   \<not> now_entry (env sampleA) < reset_wait (st0\<lparr>last_accel := accel_bytes sampleA\<rparr>) \<and>
   xfer (env sampleA) = Some sampleA \<and>
   \<not> now_entry (env sampleB) < reset_wait (st0\<lparr>last_accel := accel_bytes sampleA\<rparr>) \<and>
   xfer (env sampleB) = Some sampleB \<and>
   accel_bytes sampleB \<noteq> accel_bytes sampleA \<and> \<not> all_zero (convert_report sampleB) \<and>
   accel_bytes sampleA = last_accel (st0\<lparr>last_accel := accel_bytes sampleA\<rparr>) \<and>
   \<not> got_duplicate (st0\<lparr>last_accel := accel_bytes sampleA\<rparr>) \<and>
   measure_icm (env sampleA) (st0\<lparr>last_accel := accel_bytes sampleA\<rparr>) =
     (OK, [Transfer],
      st0\<lparr>last_accel := accel_bytes sampleA, duplicates := 1, got_duplicate := True\<rparr>) \<and>
   length (accel_published (fst (snd (measure_icm (env sampleB)
     (snd (snd (measure_icm (env sampleA) (st0\<lparr>last_accel := accel_bytes sampleA\<rparr>)))))))) = 1"
proof -
  define s where "s = st0\<lparr>last_accel := accel_bytes sampleA\<rparr>"
  have h1: "\<not> in_factory_test s" and h2: "register_wait s = 0"
    and h3: "\<not> now_entry (env sampleA) < reset_wait s"
    and h5: "\<not> now_entry (env sampleB) < reset_wait s"
    and h9: "accel_bytes sampleA = last_accel s" and h10: "\<not> got_duplicate s"
    and h11: "\<not> pub_blocked s" and h12: "duplicates s = 0"
    by (simp_all add: s_def st0_def env_def)
  have h4: "xfer (env sampleA) = Some sampleA" and h6: "xfer (env sampleB) = Some sampleB"
    and h13: "accel_notify (env sampleB)"
    by (simp_all add: env_def)
  have h7: "accel_bytes sampleB \<noteq> accel_bytes sampleA"
    by (simp add: accel_bytes_def sampleA_def sampleB_def)
  have h8: "\<not> all_zero (convert_report sampleB)"
    by (simp add: all_zero_def convert_report_def sampleA_def sampleB_def
        int16_t_from_bytes_def)
  note dc = duplicate_check [OF h1 h2 h3 h4 h5 h6 h7 h8]
  have m1: "measure_icm (env sampleA) s =
      (OK, [Transfer], s\<lparr>duplicates := 1, got_duplicate := True\<rparr>)"
    using dc h9 h10 h12 by simp
  have m2: "length (accel_published (fst (snd (measure_icm (env sampleB)
      (snd (snd (measure_icm (env sampleA) s))))))) = 1"
    using dc h11 h13 by (simp add: Let_def)
  show ?thesis
    using h1 h2 h3 h4 h5 h6 h7 h8 h9 h10 m1 m2
    unfolding s_def [symmetric] by (simp only: simp_thms)
qed




section \<open>Trust after recovery\<close>






end
